theory Spec2Isabelle
  imports Complex_Main "HOL-Library.Log_Nat"
begin

section \<open>Python values, built-ins and formatting\<close>

text \<open>
  A Python float is a binary64 value and is modelled by the \<^typ>\<open>real\<close> number it denotes;
  infinities and NaN are left out. Comparisons of floats, and of a float with an int, are
  exact in Python and in the model. The operations that round do so in the model as well:
  a sum of two floats and the conversion of an int are rounded to the nearest binary64
  value, ties to even (\<open>round_f64\<close>), and a decimal literal of the source that is not a
  binary64 value stands for the nearest one (\<open>f64_11_3\<close> for \<open>11.3\<close>; the other literals of
  the source are exact). Python ints are \<^typ>\<open>int\<close>. A \<open>datetime\<close> is represented by its
  ISO 8601 text, so that \<open>isoformat()\<close> is the identity. Every exception of the model is a
  subclass of Python's \<open>Exception\<close>.
\<close>

datatype exn =
    ValueError
  | TypeError
  | OverflowError
  | ValidationError string
  | GenerationError string
  | PersistenceError string
  | HTTPException nat string

datatype py_val =
    PyNone
  | PyFloat real
  | PyInt int
  | PyStr string
  | PyDatetime string

text \<open>
  \<open>float(s)\<close> and \<open>int(s)\<close> on a \<open>str\<close> parse the text, and \<open>str(d)\<close> prints a dict (kept
  as an association list, in insertion order); these are Python's own functions and are
  taken as parameters (\<open>None\<close> stands for the \<open>ValueError\<close> a parser raises).
  A character is one code point up to U+00FF; the few characters of the source beyond
  that are written in ASCII: the arrow as \<open>->\<close>, the en dash as \<open>-\<close>.
\<close>

record builtins =
  float_of_str :: "string \<Rightarrow> real option"
  int_of_str :: "string \<Rightarrow> int option"
  str_of_dict :: "(string \<times> py_val) list \<Rightarrow> string"

definition round_half_even :: "real \<Rightarrow> int" where
  "round_half_even y =
     (let m = \<lfloor>y\<rfloor>; f = y - of_int m
      in if f < 1 / 2 then m
         else if 1 / 2 < f then m + 1
         else if even m then m else m + 1)"

text \<open>
  Binary64 arithmetic. \<open>f64_exponent x\<close> is the exponent \<open>e\<close> with \<open>2^e \<le> x < 2^(e+1)\<close> of a
  positive \<open>x\<close>; \<open>f64_ulp x\<close> is the spacing of the binary64 values around \<open>x\<close> (53 significant
  bits, the exponent not below -1022); \<open>round_f64\<close> rounds to the nearest multiple of it,
  ties to even; \<open>is_f64\<close> holds of the finite binary64 values.
\<close>

definition pow2 :: "int \<Rightarrow> real" where
  "pow2 e = (if 0 \<le> e then 2 ^ nat e else 1 / 2 ^ nat (- e))"

definition f64_exponent :: "real \<Rightarrow> int" where
  "f64_exponent x =
     (if 1 \<le> x then int (floorlog 2 (nat \<lfloor>x\<rfloor>)) - 1
      else - int (floorlog 2 (nat (\<lceil>1 / x\<rceil> - 1))))"

definition f64_ulp :: "real \<Rightarrow> real" where
  "f64_ulp x = pow2 (max (f64_exponent \<bar>x\<bar>) (- 1022) - 52)"

definition round_f64 :: "real \<Rightarrow> real" where
  "round_f64 x =
     (if x = 0 then 0
      else (let r = of_int (round_half_even (\<bar>x\<bar> / f64_ulp x)) * f64_ulp x
            in if x < 0 then - r else r))"

definition is_f64 :: "real \<Rightarrow> bool" where
  "is_f64 x = (x = 0 \<or> (\<bar>x\<bar> < pow2 1024
                 \<and> of_int \<lfloor>\<bar>x\<bar> / f64_ulp x\<rfloor> = \<bar>x\<bar> / f64_ulp x))"

definition f64_add :: "real \<Rightarrow> real \<Rightarrow> real" where
  \<comment> \<open>\<open>x + y\<close> on floats\<close>
  "f64_add x y = round_f64 (x + y)"

definition f64_11_3 :: real where
  \<comment> \<open>the float that the literal \<open>11.3\<close> denotes\<close>
  "f64_11_3 = 3180667236830413 / 2 ^ 48"

fun truthy :: "py_val \<Rightarrow> bool" where
  "truthy PyNone = False"
| "truthy (PyFloat x) = (x \<noteq> 0)"
| "truthy (PyInt i) = (i \<noteq> 0)"
| "truthy (PyStr s) = (s \<noteq> [])"
| "truthy (PyDatetime t) = True"

definition py_or :: "py_val \<Rightarrow> py_val \<Rightarrow> py_val" where
  \<comment> \<open>\<open>a or b\<close>\<close>
  "py_or a b = (if truthy a then a else b)"

definition dict_get :: "(string \<rightharpoonup> py_val) \<Rightarrow> string \<Rightarrow> py_val" where
  \<comment> \<open>\<open>d.get(k)\<close>: \<open>None\<close> for a missing key\<close>
  "dict_get d k = (case d k of None \<Rightarrow> PyNone | Some v \<Rightarrow> v)"

fun py_float :: "builtins \<Rightarrow> py_val \<Rightarrow> exn + real" where
  "py_float B PyNone = Inl TypeError"
| "py_float B (PyFloat x) = Inr x"
| "py_float B (PyInt i) =
     (let r = round_f64 (of_int i)
      in if pow2 1024 \<le> \<bar>r\<bar> then Inl OverflowError else Inr r)"
| "py_float B (PyStr s) = (case float_of_str B s of None \<Rightarrow> Inl ValueError | Some x \<Rightarrow> Inr x)"
| "py_float B (PyDatetime t) = Inl TypeError"

fun py_int :: "builtins \<Rightarrow> py_val \<Rightarrow> exn + int" where
  "py_int B PyNone = Inl TypeError"
| "py_int B (PyFloat x) = Inr (if 0 \<le> x then \<lfloor>x\<rfloor> else \<lceil>x\<rceil>)"
| "py_int B (PyInt i) = Inr i"
| "py_int B (PyStr s) = (case int_of_str B s of None \<Rightarrow> Inl ValueError | Some i \<Rightarrow> Inr i)"
| "py_int B (PyDatetime t) = Inl TypeError"

definition digit_char :: "nat \<Rightarrow> char" where
  "digit_char d = ''0123456789'' ! (d mod 10)"

function str_nat :: "nat \<Rightarrow> string" where
  "str_nat n = (if n < 10 then [digit_char n] else str_nat (n div 10) @ [digit_char (n mod 10)])"
  by pat_completeness auto
termination
  by (relation "measure (\<lambda>n. n)") auto

declare str_nat.simps [simp del]

definition str_int :: "int \<Rightarrow> string" where
  \<comment> \<open>\<open>f"{i}"\<close> for an int\<close>
  "str_int i = (if i < 0 then CHR ''-'' # str_nat (nat (- i)) else str_nat (nat i))"

definition fmt_1f :: "real \<Rightarrow> string" where
  \<comment> \<open>\<open>f"{x:.1f}"\<close>: one decimal place, ties to even, the sign kept on a negative value\<close>
  "fmt_1f x =
     (let t = nat (round_half_even (\<bar>x\<bar> * 10));
          body = str_nat (t div 10) @ ''.'' @ [digit_char (t mod 10)]
      in if x < 0 then CHR ''-'' # body else body)"

definition join_space :: "string list \<Rightarrow> string" where
  \<comment> \<open>\<open>" ".join(parts)\<close>\<close>
  "join_space parts = (case parts of [] \<Rightarrow> [] | p # ps \<Rightarrow> foldl (\<lambda>acc q. acc @ '' '' @ q) p ps)"

section \<open>Data model\<close>

text \<open>\<open>models/telemetry.py\<close>: the validated telemetry sample.\<close>

record TelemetryPayload =
  vin :: string
  timestamp :: string
  coolant_temp_c :: real
  coolant_pressure_bar :: real
  engine_rpm :: int
  vibration_level :: real
  battery_voltage :: real
  odometer_km :: real
  ambient_temp_c :: "real option"

definition py_isspace :: "char \<Rightarrow> bool" where
  "py_isspace c = ((of_char c :: nat) \<in> {9, 10, 11, 12, 13, 28, 29, 30, 31, 32, 133, 160})"

definition vin_not_empty :: "string \<Rightarrow> bool" where
  \<comment> \<open>the validator raises when \<open>v.strip()\<close> is empty\<close>
  "vin_not_empty v = (\<not> list_all py_isspace v)"

definition in_range :: "TelemetryPayload \<Rightarrow> bool" where
  \<comment> \<open>the \<open>Field(ge=..., le=...)\<close> bounds and the \<open>vin\<close> validator\<close>
  "in_range p =
     (vin_not_empty (vin p)
      \<and> - 40 \<le> coolant_temp_c p \<and> coolant_temp_c p \<le> 200
      \<and> 0 \<le> coolant_pressure_bar p \<and> coolant_pressure_bar p \<le> 5
      \<and> 0 \<le> engine_rpm p \<and> engine_rpm p \<le> 9000
      \<and> 0 \<le> vibration_level p \<and> vibration_level p \<le> 100
      \<and> 0 \<le> battery_voltage p \<and> battery_voltage p \<le> 24
      \<and> 0 \<le> odometer_km p
      \<and> (case ambient_temp_c p of None \<Rightarrow> True | Some a \<Rightarrow> - 50 \<le> a \<and> a \<le> 70))"

definition to_dict :: "TelemetryPayload \<Rightarrow> (string \<rightharpoonup> py_val)" where
  \<comment> \<open>\<open>payload.dict()\<close>\<close>
  "to_dict p = map_of
     [(''vin'', PyStr (vin p)),
      (''timestamp'', PyDatetime (timestamp p)),
      (''coolant_temp_c'', PyFloat (coolant_temp_c p)),
      (''coolant_pressure_bar'', PyFloat (coolant_pressure_bar p)),
      (''engine_rpm'', PyInt (engine_rpm p)),
      (''vibration_level'', PyFloat (vibration_level p)),
      (''battery_voltage'', PyFloat (battery_voltage p)),
      (''odometer_km'', PyFloat (odometer_km p)),
      (''ambient_temp_c'', (case ambient_temp_c p of None \<Rightarrow> PyNone | Some a \<Rightarrow> PyFloat a))]"

text \<open>\<open>services/anomaly_detector.py\<close>: the result of the detector.\<close>

record AnomalyResult =
  is_anomaly :: bool
  component :: "string option"
  severity :: "string option"
  reason :: "string option"
  predicted_failure_km :: "real option"

definition no_anomaly :: AnomalyResult where
  \<comment> \<open>\<open>AnomalyResult(is_anomaly=False)\<close>\<close>
  "no_anomaly = \<lparr>is_anomaly = False, component = None, severity = None, reason = None,
                 predicted_failure_km = None\<rparr>"

text \<open>
  What \<open>detect\<close> can be handed: a dict, a pydantic model (converted with \<open>.dict()\<close>), or some
  other object on which \<open>.dict()\<close> raises.
\<close>

datatype payload = Dict "string \<rightharpoonup> py_val" | Model TelemetryPayload | Other

text \<open>The logger: level and message template of each record, arguments left out.\<close>

datatype level = INFO | ERROR

type_synonym log = "(level \<times> string) list"

section \<open>The anomaly detector\<close>

definition increments :: "(string \<times> real) list" where
  "increments = [(''critical'', 200), (''high'', 1000), (''medium'', 5000), (''low'', 15000)]"

definition estimate_failure_km :: "real \<Rightarrow> string \<Rightarrow> real" where
  "estimate_failure_km base_odometer sev =
     (let inc = (case map_of increments sev of None \<Rightarrow> 8000 | Some i \<Rightarrow> i)
      in f64_add base_odometer inc)"

definition extract_fields ::
  "builtins \<Rightarrow> (string \<rightharpoonup> py_val) \<Rightarrow> exn + (real \<times> real \<times> real \<times> int \<times> real \<times> real)" where
  \<comment> \<open>step 2 of \<open>detect\<close>: the six reads, in the order of the source\<close>
  "extract_fields B d =
     (case py_float B (py_or (dict_get d ''coolant_temp_c'') (PyFloat 0)) of Inl e \<Rightarrow> Inl e
      | Inr coolant_temp \<Rightarrow>
     (case py_float B (py_or (dict_get d ''coolant_pressure_bar'') (PyFloat 0)) of Inl e \<Rightarrow> Inl e
      | Inr coolant_pressure \<Rightarrow>
     (case py_float B (py_or (dict_get d ''battery_voltage'') (PyFloat 12.5)) of Inl e \<Rightarrow> Inl e
      | Inr battery_v \<Rightarrow>
     (case py_int B (py_or (dict_get d ''engine_rpm'') (PyInt 0)) of Inl e \<Rightarrow> Inl e
      | Inr rpm \<Rightarrow>
     (case py_float B (py_or (dict_get d ''vibration_level'') (PyFloat 0)) of Inl e \<Rightarrow> Inl e
      | Inr vibration \<Rightarrow>
     (case py_float B (py_or (dict_get d ''odometer_km'') (PyFloat 0)) of Inl e \<Rightarrow> Inl e
      | Inr odometer \<Rightarrow>
        Inr (coolant_temp, coolant_pressure, battery_v, rpm, vibration, odometer)))))))"

definition anomaly_result :: "string \<Rightarrow> string \<Rightarrow> string \<Rightarrow> real \<Rightarrow> AnomalyResult" where
  "anomaly_result cmpt sev rsn km =
     \<lparr>is_anomaly = True, component = Some cmpt, severity = Some sev, reason = Some rsn,
      predicted_failure_km = Some km\<rparr>"

definition rule_set ::
  "real \<Rightarrow> real \<Rightarrow> real \<Rightarrow> int \<Rightarrow> real \<Rightarrow> real \<Rightarrow> log \<Rightarrow> AnomalyResult \<times> log" where
  \<comment> \<open>step 4 of \<open>detect\<close>: the rules, tried in the order of the source\<close>
  "rule_set coolant_temp coolant_pressure battery_v rpm vibration odometer lg =
     (if 120 \<le> coolant_temp \<or> (110 \<le> coolant_temp \<and> 2.5 \<le> coolant_pressure) then
        (let sev = (if 135 \<le> coolant_temp then ''critical''
                    else if 125 \<le> coolant_temp then ''high'' else ''medium'');
             reason_parts =
               [''Coolant temperature is high at '' @ fmt_1f coolant_temp @ [CHR 0xB0] @ ''C'']
               @ (if 0 < coolant_pressure
                  then [''with coolant pressure '' @ fmt_1f coolant_pressure @ '' bar''] else [])
               @ [''indicating poor coolant circulation or a failing coolant pump.'']
         in (anomaly_result ''coolant_pump'' sev (join_space reason_parts)
               (estimate_failure_km odometer sev), lg))
      else if battery_v \<le> f64_11_3 then
        (let sev = (if battery_v \<le> 10.5 then ''high'' else ''medium'')
         in (anomaly_result ''alternator'' sev
               (''Battery voltage is low at '' @ fmt_1f battery_v @ '' V, ''
                @ ''which suggests a charging system or alternator problem.'')
               (estimate_failure_km odometer sev), lg))
      else if 80 \<le> vibration \<and> 2500 \<le> rpm then
        (let sev = (if vibration < 95 then ''medium'' else ''high'')
         in (anomaly_result ''engine_misfire'' sev
               (''Vibration level is high at '' @ fmt_1f vibration @ '' while engine RPM is ''
                @ str_int rpm @ '', ''
                @ ''indicating abnormal engine behaviour, likely an engine misfire under load.'')
               (estimate_failure_km odometer sev), lg))
      else if 60 \<le> vibration \<and> rpm < 2500 then
        (let sev = ''low''
         in (anomaly_result ''sensor_failure'' sev
               (''Vibration level is elevated at '' @ fmt_1f vibration @ '' with moderate RPM (''
                @ str_int rpm @ ''), ''
                @ ''which may indicate a sensor issue or minor imbalance rather than a major component failure.'')
               (estimate_failure_km odometer sev), lg))
      else (no_anomaly, lg @ [(INFO, ''[ANOMALY DETECTOR] No rule triggered -> no anomaly.'')]))"

definition detect :: "builtins \<Rightarrow> payload \<Rightarrow> log \<Rightarrow> (exn + AnomalyResult) \<times> log" where
  "detect B pl lg =
     (let (conv, lg1) =
            (case pl of
               Dict d \<Rightarrow> (Some d, lg)
             | Model p \<Rightarrow> (Some (to_dict p), lg @ [(INFO, ''Payload is NOT dict -> converting via .dict()'')])
             | Other \<Rightarrow> (None, lg @ [(INFO, ''Payload is NOT dict -> converting via .dict()''),
                                      (ERROR, ''Payload conversion to dict FAILED.'')]))
      in case conv of
           None \<Rightarrow> (Inr no_anomaly, lg1)
         | Some d \<Rightarrow>
             (let lg2 = lg1 @ [(INFO, ''=== [ANOMALY DETECTOR] Incoming telemetry payload ===''),
                               (INFO, ''PAYLOAD CONTENT: %s'')]
              in case extract_fields B d of
                   Inl e \<Rightarrow> (Inl e, lg2)
                 | Inr (coolant_temp, coolant_pressure, battery_v, rpm, vibration, odometer) \<Rightarrow>
                     (let (res, lg3) = rule_set coolant_temp coolant_pressure battery_v rpm
                                         vibration odometer lg2
                      in (Inr res, lg3))))"

section \<open>The pipeline orchestrator\<close>

text \<open>\<open>models/faults.py\<close>. The constructor validates \<open>severity\<close> against its \<open>Literal\<close>.\<close>

type_synonym context_dict = "(string \<times> py_val) list"

record FaultRecord =
  fr_id :: string
  fr_vin :: string
  detected_at :: string
  fr_predicted_failure_km :: real
  fr_component :: string
  fr_severity :: string
  raw_payload :: context_dict

definition new_FaultRecord ::
  "string \<Rightarrow> string \<Rightarrow> string \<Rightarrow> real \<Rightarrow> string \<Rightarrow> string \<Rightarrow> context_dict \<Rightarrow> exn + FaultRecord" where
  "new_FaultRecord i v t km c s raw =
     (if s \<in> set [''low'', ''medium'', ''high'', ''critical'']
      then Inr \<lparr>fr_id = i, fr_vin = v, detected_at = t, fr_predicted_failure_km = km,
                fr_component = c, fr_severity = s, raw_payload = raw\<rparr>
      else Inl (ValidationError ''severity''))"

record Agent =
  role :: string
  goal :: string
  backstory :: string

record Task =
  description :: string
  agent :: Agent
  expected_output :: string

text \<open>
  The collaborators injected into the orchestrator. Each answers as a function of the
  calls made to it so far, so that it may fail at one call and succeed at another:
  \<^item> \<open>llm_invoke\<close>: the text-generation capability, \<open>invoke(role, instruction_text)\<close>;
  \<^item> \<open>save_fault\<close>: \<open>FaultRepository.save_fault\<close>, \<open>None\<close> when it returns normally;
  \<^item> \<open>generate_id\<close>: \<open>app.utils.ids.generate_id\<close>, given the number of ids issued so far.
\<close>

record collaborators =
  llm_invoke :: "(string \<times> string) list \<Rightarrow> string \<Rightarrow> string \<Rightarrow> exn + string"
  save_fault :: "FaultRecord list \<Rightarrow> FaultRecord \<Rightarrow> exn option"
  generate_id :: "nat \<Rightarrow> string"

text \<open>
  What a run can observe and change outside its own variables: the log, the calls made
  to the text-generation capability and to the repository, the ids issued, the clock.
\<close>

record world =
  logged :: log
  gen_calls :: "(string \<times> string) list"
  save_calls :: "FaultRecord list"
  ids_issued :: nat
  utcnow :: string

definition log_to :: "level \<Rightarrow> string \<Rightarrow> world \<Rightarrow> world" where
  "log_to l m w = w\<lparr>logged := logged w @ [(l, m)]\<rparr>"

definition data_agent :: Agent where
  "data_agent = \<lparr>role = ''Data Monitoring Agent'',
     goal = ''Summarize the critical aspects of incoming telemetry and any detected anomaly ''
            @ ''for downstream agents.'',
     backstory = ''You are an expert in automotive telematics and CAN bus data. ''
            @ ''You highlight only the most relevant parameters and risks.''\<rparr>"

definition diagnosis_agent :: Agent where
  "diagnosis_agent = \<lparr>role = ''Diagnosis Agent'',
     goal = ''Explain the likely failure mode, impacted component, and recommended urgency ''
            @ ''for a preventive service visit.'',
     backstory = ''You are a senior automotive diagnostic specialist who understands ''
            @ ''coolant systems, powertrain, and safety implications.''\<rparr>"

definition customer_agent :: Agent where
  "customer_agent = \<lparr>role = ''Customer Engagement Agent'',
     goal = ''Draft a clear, reassuring message to the vehicle owner explaining the issue ''
            @ ''and proposing a preventive check.'',
     backstory = ''You are a courteous service advisor at a premium car brand. ''
            @ ''You avoid technical jargon and do not cause panic.''\<rparr>"

definition scheduling_agent :: Agent where
  "scheduling_agent = \<lparr>role = ''Scheduling Agent'',
     goal = ''Convert customer consent into a precise service booking instruction that ''
            @ ''can be passed to the dealer or CRM system.'',
     backstory = ''You are a meticulous booking coordinator familiar with workshop calendars ''
            @ ''and peak load management.''\<rparr>"

definition insight_agent :: Agent where
  "insight_agent = \<lparr>role = ''OEM Insights Agent'',
     goal = ''Summarize the incident for OEM R&D, including defect hypothesis and potential ''
            @ ''impact on reliability and safety across the fleet.'',
     backstory = ''You are a quality & reliability engineer who feeds structured insights into ''
            @ ''design improvement programs.''\<rparr>"

definition build_tasks :: "builtins \<Rightarrow> context_dict \<Rightarrow> Task list" where
  "build_tasks B ctx =
     (let context_str = str_of_dict B ctx;
          task1 = \<lparr>description =
              ''You are given raw telemetry and an anomaly result. ''
              @ ''Using the following JSON context, summarize the key risk in 2-3 bullet points ''
              @ ''for technical stakeholders. Focus on the parameter deviations and why they matter.\<newline>\<newline>''
              @ ''Context: '' @ context_str,
            agent = data_agent,
            expected_output =
              ''2-3 bullet points summarizing the anomaly and its technical implications.''\<rparr>;
          task2 = \<lparr>description =
              ''Based on the same context, provide a diagnostic explanation:\<newline>''
              @ ''1) most probable failure mode,\<newline>''
              @ ''2) specific component affected,\<newline>''
              @ ''3) recommended urgency (low/medium/high/critical), and\<newline>''
              @ ''4) a one-line justification.\<newline>\<newline>''
              @ ''Context: '' @ context_str,
            agent = diagnosis_agent,
            expected_output =
              ''A short paragraph followed by a bullet list with failure mode, component, ''
              @ ''urgency, and justification.''\<rparr>;
          task3 = \<lparr>description =
              ''Draft a WhatsApp-style message to the vehicle owner explaining the situation ''
              @ ''in simple language and proposing a preventive service visit. ''
              @ ''Be calm, concise, and do not use technical jargon. ''
              @ ''Close with a question asking for a preferred day (e.g., '' @ [CHR 0x27]
              @ ''Can I book you in on Tuesday?'' @ [CHR 0x27] @ '').\<newline>\<newline>''
              @ ''Context: '' @ context_str,
            agent = customer_agent,
            expected_output =
              ''A single message of 3-5 sentences that can be sent directly to the vehicle owner.''\<rparr>;
          task4 = \<lparr>description =
              ''Convert the situation into a precise service booking instruction for the dealer system. ''
              @ ''Assume the customer has agreed to a visit within the next 3 days. ''
              @ ''Respond ONLY with valid JSON, no extra text, using the fields:\<newline>''
              @ ''  preferred_date (YYYY-MM-DD),\<newline>''
              @ ''  preferred_time_window (e.g., '' @ [CHR 0x27] @ ''10:00-12:00'' @ [CHR 0x27] @ ''),\<newline>''
              @ ''  workshop_type (e.g., '' @ [CHR 0x27] @ ''authorized_dealer'' @ [CHR 0x27] @ ''),\<newline>''
              @ ''  notes (short text).\<newline>\<newline>''
              @ ''Context: '' @ context_str,
            agent = scheduling_agent,
            expected_output =
              ''Strictly valid JSON object with the keys: preferred_date, preferred_time_window, ''
              @ ''workshop_type, notes.''\<rparr>;
          task5 = \<lparr>description =
              ''Write a concise technical summary for OEM R&D. Include:\<newline>''
              @ ''- VIN\<newline>''
              @ ''- component\<newline>''
              @ ''- severity\<newline>''
              @ ''- defect hypothesis\<newline>''
              @ ''- potential impact on safety and reliability across the fleet.\<newline>''
              @ ''Limit to 4-6 bullet points.\<newline>\<newline>''
              @ ''Context: '' @ context_str,
            agent = insight_agent,
            expected_output =
              ''4-6 bullet points that can be pasted into an OEM defect tracking system.''\<rparr>
      in [task1, task2, task3, task4, task5])"

text \<open>
  Modelled from the spec: \<open>Crew.kickoff\<close> with \<open>Process.sequential\<close> belongs to the CrewAI
  library and is not part of the sources. The spec has the stages run one after another
  in the order given, each one a call \<open>invoke(role, instruction_text)\<close> of the injected
  text-generation capability on the stage's own instruction; a failure of the capability
  aborts the remaining stages and no partial aggregate is returned; the result aggregates
  the outputs of all stages, in order.
\<close>

fun run_stages ::
  "collaborators \<Rightarrow> Task list \<Rightarrow> string list \<Rightarrow> world \<Rightarrow> (exn + string list) \<times> world" where
  "run_stages C [] outs w = (Inr outs, w)"
| "run_stages C (t # ts) outs w =
     (let w1 = w\<lparr>gen_calls := gen_calls w @ [(role (agent t), description t)]\<rparr>
      in case llm_invoke C (gen_calls w) (role (agent t)) (description t) of
           Inl e \<Rightarrow> (Inl e, w1)
         | Inr out \<Rightarrow> run_stages C ts (outs @ [out]) w1)"

definition kickoff :: "collaborators \<Rightarrow> Task list \<Rightarrow> world \<Rightarrow> (exn + string list) \<times> world" where
  "kickoff C tasks w = run_stages C tasks [] w"

record pipeline_result =
  pr_context :: context_dict
  crew_output :: "string list"
  fault_id :: string

definition opt_str :: "string option \<Rightarrow> py_val" where
  "opt_str s = (case s of None \<Rightarrow> PyNone | Some t \<Rightarrow> PyStr t)"

definition build_context :: "TelemetryPayload \<Rightarrow> AnomalyResult \<Rightarrow> context_dict" where
  "build_context p a =
     [(''vin'', PyStr (vin p)),
      (''timestamp'', PyStr (timestamp p)),
      (''coolant_temp_c'', PyFloat (coolant_temp_c p)),
      (''coolant_pressure_bar'', PyFloat (coolant_pressure_bar p)),
      (''engine_rpm'', PyInt (engine_rpm p)),
      (''vibration_level'', PyFloat (vibration_level p)),
      (''battery_voltage'', PyFloat (battery_voltage p)),
      (''odometer_km'', PyFloat (odometer_km p)),
      (''anomaly_reason'', opt_str (reason a)),
      (''predicted_failure_km'',
         (case predicted_failure_km a of None \<Rightarrow> PyNone | Some km \<Rightarrow> PyFloat km)),
      (''component'', opt_str (component a)),
      (''severity'', opt_str (severity a))]"

definition or_str :: "string option \<Rightarrow> string \<Rightarrow> string" where
  \<comment> \<open>\<open>s or dflt\<close> on an optional \<open>str\<close>: \<open>None\<close> and the empty text are falsy\<close>
  "or_str s dflt = (case s of None \<Rightarrow> dflt | Some t \<Rightarrow> if t = [] then dflt else t)"

definition or_float :: "real option \<Rightarrow> real \<Rightarrow> real" where
  \<comment> \<open>\<open>x or dflt\<close> on an optional \<open>float\<close>: \<open>None\<close> and \<open>0.0\<close> are falsy\<close>
  "or_float x dflt = (case x of None \<Rightarrow> dflt | Some y \<Rightarrow> if y = 0 then dflt else y)"

definition run_pipeline ::
  "collaborators \<Rightarrow> builtins \<Rightarrow> TelemetryPayload \<Rightarrow> AnomalyResult \<Rightarrow> world
     \<Rightarrow> (exn + pipeline_result) \<times> world" where
  "run_pipeline C B p a w =
     (let ctx = build_context p a;
          w1 = log_to INFO ''Running CrewAI pipeline for VIN=%s, component=%s, severity=%s'' w;
          tasks = build_tasks B ctx
      in case kickoff C tasks w1 of
           (Inl exc, w2) \<Rightarrow> (Inl exc, log_to ERROR ''CrewAI pipeline failed: %s'' w2)
         | (Inr crew_result, w2) \<Rightarrow>
             (let new_id = generate_id C (ids_issued w2);
                  w3 = w2\<lparr>ids_issued := Suc (ids_issued w2)\<rparr>
              in case new_FaultRecord new_id (vin p) (utcnow w3)
                        (or_float (predicted_failure_km a) 200)
                        (or_str (component a) ''unknown'')
                        (or_str (severity a) ''medium'')
                        ctx of
                   Inl exc \<Rightarrow> (Inl exc, w3)
                 | Inr fault \<Rightarrow>
                     (let w4 = w3\<lparr>save_calls := save_calls w3 @ [fault]\<rparr>;
                          w5 = (case save_fault C (save_calls w3) fault of
                                  None \<Rightarrow> w4
                                | Some exc \<Rightarrow> log_to ERROR ''Failed to persist fault record: %s'' w4)
                      in (Inr \<lparr>pr_context = ctx, crew_output = crew_result, fault_id = fr_id fault\<rparr>,
                          w5))))"

text \<open>\<open>main.py\<close>: the entry point that composes detector and orchestrator.\<close>

datatype response =
    NoAnomaly string
  | AnomalyDetected string context_dict "string list"

definition ingest_telemetry ::
  "collaborators \<Rightarrow> builtins \<Rightarrow> TelemetryPayload \<Rightarrow> world \<Rightarrow> (exn + response) \<times> world" where
  "ingest_telemetry C B p w =
     (let w0 = log_to INFO ''Received telemetry for VIN=%s'' w;
          (det, lg) = detect B (Model p) (logged w0);
          w1 = w0\<lparr>logged := lg\<rparr>
      in case det of
           Inl e \<Rightarrow> (Inl e, w1)
         | Inr a \<Rightarrow>
             if \<not> is_anomaly a then (Inr (NoAnomaly ''No anomaly detected.''), w1)
             else (case run_pipeline C B p a w1 of
                     (Inl e, w2) \<Rightarrow>
                       (Inl (HTTPException 500 ''Internal processing error; please try again later.''),
                        log_to ERROR ''Failed to run orchestrator: %s'' w2)
                   | (Inr res, w2) \<Rightarrow>
                       (Inr (AnomalyDetected (fault_id res) (pr_context res) (crew_output res)), w2)))"

section \<open>Notions used in the statements\<close>

text \<open>
  The call a stage makes, the answer of the capability to stage \<open>j\<close> of a task list when the
  stages before it have run after the calls \<open>hist\<close>, and the success of the first \<open>k\<close> stages.
\<close>

definition call_of :: "Task \<Rightarrow> string \<times> string" where
  "call_of t = (role (agent t), description t)"

definition stage_answer ::
  "collaborators \<Rightarrow> (string \<times> string) list \<Rightarrow> Task list \<Rightarrow> nat \<Rightarrow> exn + string" where
  "stage_answer C hist ts j =
     llm_invoke C (hist @ map call_of (take j ts)) (role (agent (ts ! j))) (description (ts ! j))"

definition stages_succeed_upto ::
  "collaborators \<Rightarrow> (string \<times> string) list \<Rightarrow> Task list \<Rightarrow> nat \<Rightarrow> bool" where
  "stages_succeed_upto C hist ts k = list_all (\<lambda>j. \<not> isl (stage_answer C hist ts j)) [0..<k]"

text \<open>The severity handed to the \<open>FaultRecord\<close> constructor passes its validation.\<close>

definition severity_ok :: "AnomalyResult \<Rightarrow> bool" where
  "severity_ok a = (or_str (severity a) ''medium'' \<in> set [''low'', ''medium'', ''high'', ''critical''])"

text \<open>The log after \<open>detect\<close> has converted a model and announced the payload.\<close>

definition model_log :: "log \<Rightarrow> log" where
  "model_log lg = lg @ [(INFO, ''Payload is NOT dict -> converting via .dict()''),
                        (INFO, ''=== [ANOMALY DETECTOR] Incoming telemetry payload ===''),
                        (INFO, ''PAYLOAD CONTENT: %s'')]"

section \<open>Concrete inputs\<close>

definition sample_builtins :: builtins where
  "sample_builtins = \<lparr>float_of_str = (\<lambda>s. None), int_of_str = (\<lambda>s. None), str_of_dict = (\<lambda>d. ''{}'')\<rparr>"

definition sample :: "real \<Rightarrow> real \<Rightarrow> int \<Rightarrow> real \<Rightarrow> real \<Rightarrow> real \<Rightarrow> TelemetryPayload" where
  "sample ct cp rpm vib bv odo =
     \<lparr>vin = ''MA1TA2BC3D4E56789'', timestamp = ''2025-01-15T08:30:00'', coolant_temp_c = ct,
      coolant_pressure_bar = cp, engine_rpm = rpm, vibration_level = vib, battery_voltage = bv,
      odometer_km = odo, ambient_temp_c = None\<rparr>"

definition sample_collaborators :: "string list \<Rightarrow> bool \<Rightarrow> collaborators" where
  "sample_collaborators failing_roles save_fails =
     \<lparr>llm_invoke = (\<lambda>hist r instr. if r \<in> set failing_roles then Inl (GenerationError ''provider down'')
                                    else Inr (''output of '' @ r)),
      save_fault = (\<lambda>hist f. if save_fails then Some (PersistenceError ''database is locked'') else None),
      generate_id = (\<lambda>n. ''fault-'' @ str_nat n)\<rparr>"

definition sample_world :: world where
  "sample_world = \<lparr>logged = [], gen_calls = [], save_calls = [], ids_issued = 0,
                    utcnow = ''2025-01-15T08:30:05''\<rparr>"

section \<open>Properties of the binary64 operations\<close>

lemma pow2_pos [simp]: "0 < pow2 e"
  by (simp add: pow2_def)

lemma f64_ulp_pos [simp]: "0 < f64_ulp x"
  by (simp add: f64_ulp_def)

lemma round_half_even_of_int [simp]: "round_half_even (of_int m) = m"
  by (simp add: round_half_even_def)

lemma round_f64_exact: "is_f64 x \<Longrightarrow> round_f64 x = x"
proof (cases "x = 0")
  case True
  then show ?thesis by (simp add: round_f64_def)
next
  case False
  assume "is_f64 x"
  with False have q: "of_int \<lfloor>\<bar>x\<bar> / f64_ulp x\<rfloor> = \<bar>x\<bar> / f64_ulp x"
    by (simp add: is_f64_def)
  have "round_half_even (\<bar>x\<bar> / f64_ulp x) = \<lfloor>\<bar>x\<bar> / f64_ulp x\<rfloor>"
    by (subst q [symmetric]) simp
  then have "of_int (round_half_even (\<bar>x\<bar> / f64_ulp x)) * f64_ulp x
      = (\<bar>x\<bar> / f64_ulp x) * f64_ulp x"
    by (simp only: q)
  also have "\<dots> = \<bar>x\<bar>"
  proof -
    have "f64_ulp x \<noteq> 0" using f64_ulp_pos [of x] by linarith
    then show ?thesis by simp
  qed
  finally have "of_int (round_half_even (\<bar>x\<bar> / f64_ulp x)) * f64_ulp x = \<bar>x\<bar>" .
  then show ?thesis
    using False by (simp add: round_f64_def Let_def)
qed

lemma real_pow2_le: "2 ^ a \<le> (n::nat) \<Longrightarrow> (2::real) ^ a \<le> real n"
  by (metis of_nat_le_iff of_nat_numeral of_nat_power)

lemma real_pow2_gt: "(n::nat) < 2 ^ a \<Longrightarrow> real n + 1 \<le> (2::real) ^ a"
proof -
  assume "n < 2 ^ a"
  then have "Suc n \<le> 2 ^ a" by simp
  then have "real (Suc n) \<le> real (2 ^ a)" by (simp only: of_nat_le_iff)
  then show ?thesis by simp
qed

lemma f64_exponent_bounds:
  assumes "0 < x"
  shows "pow2 (f64_exponent x) \<le> x \<and> x < pow2 (f64_exponent x + 1)"
proof (cases "1 \<le> x")
  case True
  define n where "n = nat \<lfloor>x\<rfloor>"
  have n: "0 < n" "real n \<le> x" "x < real n + 1"
  proof -
    from True have "1 \<le> \<lfloor>x\<rfloor>" by simp
    then show "0 < n" by (simp add: n_def)
    from \<open>1 \<le> \<lfloor>x\<rfloor>\<close> have "real n = of_int \<lfloor>x\<rfloor>" by (simp add: n_def)
    then show "real n \<le> x" "x < real n + 1" by linarith+
  qed
  from floorlog_bounds [of n 2] n(1)
  have b: "2 ^ (floorlog 2 n - 1) \<le> n" "n < 2 ^ floorlog 2 n" by simp_all
  have fl: "0 < floorlog 2 n" using n(1) by (simp add: floorlog_def)
  have e: "f64_exponent x = int (floorlog 2 n) - 1"
    using True by (simp add: f64_exponent_def n_def)
  have p1: "pow2 (f64_exponent x) = 2 ^ (floorlog 2 n - 1)"
    using fl by (simp add: e pow2_def nat_diff_distrib')
  have p2: "pow2 (f64_exponent x + 1) = 2 ^ floorlog 2 n"
    by (simp add: e pow2_def)
  show ?thesis
    unfolding p1 p2 using real_pow2_le [OF b(1)] real_pow2_gt [OF b(2)] n(2,3) by linarith
next
  case False
  with assms have x: "0 < x" "x < 1" by simp_all
  define y where "y = 1 / x"
  have y: "1 < y" using x by (simp add: y_def)
  define k where "k = nat (\<lceil>y\<rceil> - 1)"
  have k: "0 < k" "real k < y" "y \<le> real k + 1"
  proof -
    from y have "2 \<le> \<lceil>y\<rceil>" by linarith
    then show "0 < k" by (simp add: k_def)
    from \<open>2 \<le> \<lceil>y\<rceil>\<close> have "real k = of_int \<lceil>y\<rceil> - 1" by (simp add: k_def)
    then show "real k < y" "y \<le> real k + 1" by linarith+
  qed
  from floorlog_bounds [of k 2] k(1)
  have b: "2 ^ (floorlog 2 k - 1) \<le> k" "k < 2 ^ floorlog 2 k" by simp_all
  have fl: "0 < floorlog 2 k" using k(1) by (simp add: floorlog_def)
  have e: "f64_exponent x = - int (floorlog 2 k)"
    using False by (simp add: f64_exponent_def k_def y_def)
  have p1: "pow2 (f64_exponent x) = 1 / 2 ^ floorlog 2 k"
    using fl by (simp add: e pow2_def)
  obtain m where m: "floorlog 2 k = Suc m"
    using fl by (cases "floorlog 2 k") simp_all
  have p2: "pow2 (f64_exponent x + 1) = 1 / 2 ^ (floorlog 2 k - 1)"
    by (cases m) (simp_all add: e m pow2_def nat_add_distrib)
  have u: "y \<le> 2 ^ floorlog 2 k"
    using real_pow2_gt [OF b(2)] k(3) by linarith
  have l: "2 ^ (floorlog 2 k - 1) < y"
    using real_pow2_le [OF b(1)] k(2) by linarith
  have "1 / 2 ^ floorlog 2 k \<le> x"
    using u x(1) by (simp add: y_def field_simps)
  moreover have "x < 1 / 2 ^ (floorlog 2 k - 1)"
    using l x(1) by (simp add: y_def field_simps)
  ultimately show ?thesis by (simp only: p1 p2)
qed

lemma pow2_powi: "pow2 e = 2 powi e"
  by (simp add: pow2_def power_int_def inverse_eq_divide power_one_over)

lemma pow2_mono: "a \<le> b \<Longrightarrow> pow2 a \<le> pow2 b"
  by (simp add: pow2_powi power_int_increasing)

lemma f64_exponent_eqI:
  assumes "pow2 e \<le> x" and "x < pow2 (e + 1)"
  shows "f64_exponent x = e"
proof -
  have "0 < x" using assms(1) pow2_pos [of e] by linarith
  from f64_exponent_bounds [OF this]
  have b: "pow2 (f64_exponent x) \<le> x" "x < pow2 (f64_exponent x + 1)" by simp_all
  have "\<not> f64_exponent x < e"
  proof
    assume "f64_exponent x < e"
    then have "pow2 (f64_exponent x + 1) \<le> pow2 e" by (intro pow2_mono) simp
    with b(2) assms(1) show False by linarith
  qed
  moreover have "\<not> e < f64_exponent x"
  proof
    assume "e < f64_exponent x"
    then have "pow2 (e + 1) \<le> pow2 (f64_exponent x)" by (intro pow2_mono) simp
    with b(1) assms(2) show False by linarith
  qed
  ultimately show ?thesis by linarith
qed

lemma round_f64_eval:
  assumes "pow2 e \<le> x" and "x < pow2 (e + 1)" and "- 1022 \<le> e"
  shows "round_f64 x = of_int (round_half_even (x / pow2 (e - 52))) * pow2 (e - 52)"
proof -
  have "0 < x" using assms(1) pow2_pos [of e] by linarith
  then have "f64_ulp x = pow2 (e - 52)"
    using f64_exponent_eqI [OF assms(1,2)] assms(3) by (simp add: f64_ulp_def max_def)
  with \<open>0 < x\<close> show ?thesis by (simp add: round_f64_def Let_def)
qed

lemma is_f64_eval:
  assumes "pow2 e \<le> x" and "x < pow2 (e + 1)" and "- 1022 \<le> e" and "e < 1024"
  shows "is_f64 x = (of_int \<lfloor>x / pow2 (e - 52)\<rfloor> = x / pow2 (e - 52))"
proof -
  have "0 < x" using assms(1) pow2_pos [of e] by linarith
  then have u: "f64_ulp x = pow2 (e - 52)"
    using f64_exponent_eqI [OF assms(1,2)] assms(3) by (simp add: f64_ulp_def max_def)
  have "pow2 (e + 1) \<le> pow2 1024" using assms(4) by (intro pow2_mono) simp
  with assms(2) have "x < pow2 1024" by linarith
  with \<open>0 < x\<close> u show ?thesis by (simp add: is_f64_def)
qed

lemma f64_11_3_is_literal:
  "is_f64 f64_11_3 \<and> round_f64 11.3 = f64_11_3 \<and> 11.3 < f64_11_3 \<and> f64_11_3 < 12.5"
  by (simp add: is_f64_eval [where e = 3] round_f64_eval [where e = 3] pow2_def f64_11_3_def
        round_half_even_def Let_def)

lemma f64_add_rounds: "f64_add (2 ^ 60) 200 = 2 ^ 60 + 256"
  by (simp add: f64_add_def round_f64_eval [where e = 60] pow2_def round_half_even_def Let_def)

section \<open>Properties of the detector\<close>

lemma in_range_sample:
  "in_range (sample ct cp rpm vib bv odo) =
     (- 40 \<le> ct \<and> ct \<le> 200 \<and> 0 \<le> cp \<and> cp \<le> 5 \<and> 0 \<le> rpm \<and> rpm \<le> 9000
      \<and> 0 \<le> vib \<and> vib \<le> 100 \<and> 0 \<le> bv \<and> bv \<le> 24 \<and> 0 \<le> odo)"
  by (simp add: in_range_def sample_def vin_not_empty_def py_isspace_def)

lemma sample_sel [simp]:
  "coolant_temp_c (sample ct cp rpm vib bv odo) = ct"
  "coolant_pressure_bar (sample ct cp rpm vib bv odo) = cp"
  "engine_rpm (sample ct cp rpm vib bv odo) = rpm"
  "vibration_level (sample ct cp rpm vib bv odo) = vib"
  "battery_voltage (sample ct cp rpm vib bv odo) = bv"
  "odometer_km (sample ct cp rpm vib bv odo) = odo"
  by (simp_all add: sample_def)

lemma extract_fields_to_dict:
  "extract_fields B (to_dict p) =
     Inr (coolant_temp_c p, coolant_pressure_bar p,
          (if battery_voltage p = 0 then 12.5 else battery_voltage p),
          engine_rpm p, vibration_level p, odometer_km p)"
  by (simp add: extract_fields_def to_dict_def dict_get_def py_or_def)

lemma detect_Model:
  "detect B (Model p) lg =
     (Inr (fst (rule_set (coolant_temp_c p) (coolant_pressure_bar p)
                 (if battery_voltage p = 0 then 12.5 else battery_voltage p)
                 (engine_rpm p) (vibration_level p) (odometer_km p) (model_log lg))),
      snd (rule_set (coolant_temp_c p) (coolant_pressure_bar p)
                 (if battery_voltage p = 0 then 12.5 else battery_voltage p)
                 (engine_rpm p) (vibration_level p) (odometer_km p) (model_log lg)))"
  by (simp add: detect_def extract_fields_to_dict model_log_def Let_def split: prod.splits)

lemma estimate_failure_km_table:
  "estimate_failure_km b s =
     f64_add b (if s = ''critical'' then 200 else if s = ''high'' then 1000
                else if s = ''medium'' then 5000 else if s = ''low'' then 15000 else 8000)"
  by (simp add: estimate_failure_km_def increments_def)

lemma is_anomaly_rule_set:
  "is_anomaly (fst (rule_set ct cp bv rpm vib odo lg)) =
     (120 \<le> ct \<or> (110 \<le> ct \<and> 2.5 \<le> cp) \<or> bv \<le> f64_11_3 \<or> (80 \<le> vib \<and> 2500 \<le> rpm)
      \<or> (60 \<le> vib \<and> rpm < 2500))"
  by (simp add: rule_set_def anomaly_result_def no_anomaly_def Let_def)

lemma component_rule_set:
  "component (fst (rule_set ct cp bv rpm vib odo lg)) =
     (if 120 \<le> ct \<or> (110 \<le> ct \<and> 2.5 \<le> cp) then Some ''coolant_pump''
      else if bv \<le> f64_11_3 then Some ''alternator''
      else if 80 \<le> vib \<and> 2500 \<le> rpm then Some ''engine_misfire''
      else if 60 \<le> vib \<and> rpm < 2500 then Some ''sensor_failure''
      else None)"
  by (simp add: rule_set_def anomaly_result_def no_anomaly_def Let_def)

lemma severity_rule_set:
  "severity (fst (rule_set ct cp bv rpm vib odo lg)) =
     (if 120 \<le> ct \<or> (110 \<le> ct \<and> 2.5 \<le> cp) then
        Some (if 135 \<le> ct then ''critical'' else if 125 \<le> ct then ''high'' else ''medium'')
      else if bv \<le> f64_11_3 then Some (if bv \<le> 10.5 then ''high'' else ''medium'')
      else if 80 \<le> vib \<and> 2500 \<le> rpm then Some (if vib < 95 then ''medium'' else ''high'')
      else if 60 \<le> vib \<and> rpm < 2500 then Some ''low''
      else None)"
  by (simp add: rule_set_def anomaly_result_def no_anomaly_def Let_def)

lemma predicted_rule_set:
  "predicted_failure_km (fst (rule_set ct cp bv rpm vib odo lg)) =
     map_option (estimate_failure_km odo) (severity (fst (rule_set ct cp bv rpm vib odo lg)))"
  by (simp add: rule_set_def anomaly_result_def no_anomaly_def Let_def)

lemma anomaly_has_severity:
  "is_anomaly (fst (rule_set ct cp bv rpm vib odo lg)) \<Longrightarrow>
   \<exists>sev. severity (fst (rule_set ct cp bv rpm vib odo lg)) = Some sev"
  by (auto simp add: is_anomaly_rule_set severity_rule_set)

lemma rule_set_no_rule:
  assumes "\<not> (120 \<le> ct \<or> (110 \<le> ct \<and> 2.5 \<le> cp))" and "\<not> bv \<le> f64_11_3"
    and "\<not> (80 \<le> vib \<and> 2500 \<le> rpm)" and "\<not> (60 \<le> vib \<and> rpm < 2500)"
  shows "fst (rule_set ct cp bv rpm vib odo lg) = no_anomaly"
  using assms by (auto simp add: rule_set_def)

text \<open>
  What holds of the charging rule: on a sample whose battery voltage is not zero it fires
  exactly when the voltage is at most the float 11.3, once the coolant rule has not fired; and a dict
  without a battery voltage is read as 12.5, on which the rule does not fire.
\<close>

lemma charging_rule_nonzero:
  assumes "\<not> (120 \<le> coolant_temp_c p \<or> (110 \<le> coolant_temp_c p \<and> 2.5 \<le> coolant_pressure_bar p))"
    and "battery_voltage p \<noteq> 0"
  shows "\<exists>r. fst (detect B (Model p) lg) = Inr r
     \<and> ((component r = Some ''alternator'') = (battery_voltage p \<le> f64_11_3))
     \<and> (battery_voltage p \<le> f64_11_3 \<longrightarrow>
          is_anomaly r
          \<and> severity r = Some (if battery_voltage p \<le> 10.5 then ''high'' else ''medium''))"
  using assms
  by (simp add: detect_Model component_rule_set severity_rule_set is_anomaly_rule_set)

lemma missing_battery_voltage_default:
  assumes "dict_get d ''battery_voltage'' = PyNone"
    and "extract_fields B d = Inr (ct, cp, bv, rpm, vib, odo)"
  shows "bv = 12.5 \<and> component (fst (rule_set ct cp bv rpm vib odo lg)) \<noteq> Some ''alternator''"
  using assms
  by (auto simp add: extract_fields_def py_or_def component_rule_set f64_11_3_def
        split: sum.splits)

section \<open>Claims about the detector\<close>

text \<open>
  C1 (first match wins, for every in-range sample that satisfies the conditions of more
  than one rule). The rules are tried in the order of the source on the values that step 2
  has read (\<open>component_rule_set\<close>), but step 2 reads a battery voltage of \<open>0.0\<close> as
  \<open>12.5\<close>. The in-range sample below has a battery voltage of 0.0, at most 11.3, and a
  vibration level of 90 at 3000 rpm: it satisfies the conditions of the charging rule and
  of the high-vibration rule, and \<open>detect\<close> returns the later one, \<open>engine_misfire\<close>.
\<close>

theorem zero_voltage_breaks_precedence:
  "in_range (sample 90 1 3000 90 0 10000)
   \<and> battery_voltage (sample 90 1 3000 90 0 10000) \<le> 11.3
   \<and> 80 \<le> vibration_level (sample 90 1 3000 90 0 10000)
   \<and> 2500 \<le> engine_rpm (sample 90 1 3000 90 0 10000)
   \<and> fst (detect sample_builtins (Model (sample 90 1 3000 90 0 10000)) []) =
       Inr \<lparr>is_anomaly = True, component = Some ''engine_misfire'', severity = Some ''medium'',
            reason = Some (''Vibration level is high at 90.0 while engine RPM is 3000, ''
              @ ''indicating abnormal engine behaviour, likely an engine misfire under load.''),
            predicted_failure_km = Some 15000\<rparr>"
  by (simp add: in_range_sample detect_Model rule_set_def anomaly_result_def Let_def
        estimate_failure_km_table fmt_1f_def round_half_even_def str_int_def str_nat.simps
        digit_char_def f64_11_3_def f64_add_def round_f64_eval [where e = 13] pow2_def)

text \<open>
  C2 (the coolant rule). On every telemetry sample \<open>detect\<close> returns a result; its component
  is \<open>coolant_pump\<close> exactly when the coolant temperature is at least 120, or at least 110
  with a coolant pressure of at least 2.5; the result is then an anomaly whose severity is
  \<open>critical\<close> from 135, \<open>high\<close> from 125 and \<open>medium\<close> below.
\<close>

theorem coolant_rule_fires_exactly:
  "\<exists>r. fst (detect B (Model p) lg) = Inr r
     \<and> ((component r = Some ''coolant_pump'')
          = (120 \<le> coolant_temp_c p \<or> (110 \<le> coolant_temp_c p \<and> 2.5 \<le> coolant_pressure_bar p)))
     \<and> (component r = Some ''coolant_pump'' \<longrightarrow>
          is_anomaly r
          \<and> severity r = Some (if 135 \<le> coolant_temp_c p then ''critical''
                               else if 125 \<le> coolant_temp_c p then ''high'' else ''medium''))"
  by (simp add: detect_Model component_rule_set severity_rule_set is_anomaly_rule_set)

theorem coolant_rule_fires_exactly_witness:
  "(\<exists>r. fst (detect sample_builtins (Model (sample 120.0 1 1500 10 13 10000)) []) = Inr r
        \<and> component r = Some ''coolant_pump'' \<and> is_anomaly r \<and> severity r = Some ''medium'')
   \<and> (\<exists>r. fst (detect sample_builtins (Model (sample 134.9 1 1500 10 13 10000)) []) = Inr r
        \<and> component r = Some ''coolant_pump'' \<and> is_anomaly r \<and> severity r = Some ''high'')
   \<and> (\<exists>r. fst (detect sample_builtins (Model (sample 135.0 1 1500 10 13 10000)) []) = Inr r
        \<and> component r = Some ''coolant_pump'' \<and> is_anomaly r \<and> severity r = Some ''critical'')
   \<and> (\<exists>r. fst (detect sample_builtins (Model (sample 119.9 2.4 1500 10 13 10000)) []) = Inr r
        \<and> component r \<noteq> Some ''coolant_pump'')"
  using coolant_rule_fires_exactly [of sample_builtins "sample 120.0 1 1500 10 13 10000" "[]"]
        coolant_rule_fires_exactly [of sample_builtins "sample 134.9 1 1500 10 13 10000" "[]"]
        coolant_rule_fires_exactly [of sample_builtins "sample 135.0 1 1500 10 13 10000" "[]"]
        coolant_rule_fires_exactly [of sample_builtins "sample 119.9 2.4 1500 10 13 10000" "[]"]
  by auto

text \<open>
  C3 (the charging rule fires for every supplied battery voltage in [0, 11.3]). The in-range
  sample below has a battery voltage of 0.0 and no other reading out of the ordinary;
  step 2 of \<open>detect\<close> reads the voltage as \<open>0.0 or 12.5\<close>, that is 12.5, and no anomaly is
  returned.
\<close>

theorem zero_voltage_not_flagged:
  "in_range (sample 90 1 1500 10 0 10000)
   \<and> battery_voltage (sample 90 1 1500 10 0 10000) \<le> 10.5
   \<and> fst (detect sample_builtins (Model (sample 90 1 1500 10 0 10000)) []) =
       Inr \<lparr>is_anomaly = False, component = None, severity = None, reason = None,
            predicted_failure_km = None\<rparr>"
  by (simp add: in_range_sample detect_Model rule_set_def no_anomaly_def f64_11_3_def)

text \<open>
  C4 (the predicted failure distance). Whenever \<open>detect\<close> returns an anomaly for a sample,
  its \<open>predicted_failure_km\<close> is the float sum of the odometer reading and the increment of
  its severity: 200 for \<open>critical\<close>, 1000 for \<open>high\<close>, 5000 for \<open>medium\<close>, 15000 for \<open>low\<close>.
  The float sum is the exact sum whenever that is a binary64 value. \<open>estimate_failure_km\<close>
  adds 8000 for any other severity.
\<close>

theorem predicted_failure_km_increment:
  "(\<forall>r. fst (detect B (Model p) lg) = Inr r \<and> is_anomaly r \<longrightarrow>
        (\<exists>sev inc. severity r = Some sev
           \<and> inc = (if sev = ''critical'' then 200 else if sev = ''high'' then 1000
                    else if sev = ''medium'' then 5000 else if sev = ''low'' then 15000
                    else 8000)
           \<and> predicted_failure_km r = Some (f64_add (odometer_km p) inc)
           \<and> (is_f64 (odometer_km p + inc) \<longrightarrow>
                predicted_failure_km r = Some (odometer_km p + inc))))
   \<and> (\<exists>inc. inc = (if s = ''critical'' then 200 else if s = ''high'' then 1000
                    else if s = ''medium'' then 5000 else if s = ''low'' then 15000
                    else 8000)
           \<and> estimate_failure_km b s = f64_add b inc
           \<and> (is_f64 (b + inc) \<longrightarrow> estimate_failure_km b s = b + inc))"
proof (intro conjI allI impI)
  fix r
  assume h: "fst (detect B (Model p) lg) = Inr r \<and> is_anomaly r"
  then have "\<exists>sev. severity r = Some sev"
    using anomaly_has_severity by (auto simp add: detect_Model)
  then obtain sev where sev: "severity r = Some sev" by blast
  with h have km: "predicted_failure_km r = Some (estimate_failure_km (odometer_km p) sev)"
    by (auto simp add: detect_Model predicted_rule_set)
  show "\<exists>sev inc. severity r = Some sev
           \<and> inc = (if sev = ''critical'' then 200 else if sev = ''high'' then 1000
                    else if sev = ''medium'' then 5000 else if sev = ''low'' then 15000
                    else 8000)
           \<and> predicted_failure_km r = Some (f64_add (odometer_km p) inc)
           \<and> (is_f64 (odometer_km p + inc) \<longrightarrow>
                predicted_failure_km r = Some (odometer_km p + inc))"
    using sev km
    by (simp add: estimate_failure_km_table f64_add_def round_f64_exact)
next
  show "\<exists>inc. inc = (if s = ''critical'' then 200 else if s = ''high'' then 1000
                    else if s = ''medium'' then 5000 else if s = ''low'' then 15000
                    else 8000)
           \<and> estimate_failure_km b s = f64_add b inc
           \<and> (is_f64 (b + inc) \<longrightarrow> estimate_failure_km b s = b + inc)"
    by (simp add: estimate_failure_km_table f64_add_def round_f64_exact)
qed

theorem predicted_failure_km_increment_witness:
  "(\<exists>r. fst (detect sample_builtins (Model (sample 130 1 1500 10 13 10000)) []) = Inr r
      \<and> is_anomaly r \<and> component r = Some ''coolant_pump'' \<and> severity r = Some ''high''
      \<and> is_f64 (10000 + 1000)
      \<and> predicted_failure_km r = Some 11000)
   \<and> (\<exists>r. fst (detect sample_builtins (Model (sample 140 1 1500 10 13 (2 ^ 60))) []) = Inr r
      \<and> is_anomaly r \<and> severity r = Some ''critical''
      \<and> predicted_failure_km r = Some (2 ^ 60 + 256))"
proof -
  obtain r where r: "fst (detect sample_builtins (Model (sample 130 1 1500 10 13 10000)) []) = Inr r"
    by (simp add: detect_Model)
  have a: "is_anomaly r" and c: "component r = Some ''coolant_pump''"
    and s: "severity r = Some ''high''"
    using r by (auto simp add: detect_Model is_anomaly_rule_set component_rule_set severity_rule_set)
  have f: "is_f64 (10000 + 1000)"
    by (simp add: is_f64_eval [where e = 13] pow2_def)
  have e: "f64_add 10000 1000 = 11000"
    using f by (simp add: f64_add_def round_f64_exact)
  from predicted_failure_km_increment [where B = sample_builtins
      and p = "sample 130 1 1500 10 13 10000" and lg = "[]" and s = "''high''" and b = 10000]
    r a s f e
  have k: "predicted_failure_km r = Some 11000" by auto
  obtain r' where r': "fst (detect sample_builtins (Model (sample 140 1 1500 10 13 (2 ^ 60))) []) = Inr r'"
    by (simp add: detect_Model)
  have a': "is_anomaly r'" and s': "severity r' = Some ''critical''"
    using r' by (auto simp add: detect_Model is_anomaly_rule_set severity_rule_set)
  from predicted_failure_km_increment [where B = sample_builtins
      and p = "sample 140 1 1500 10 13 (2 ^ 60)" and lg = "[]" and s = "''critical''"
      and b = "2 ^ 60"]
    r' a' s'
  have k0: "predicted_failure_km r' = Some (f64_add (2 ^ 60) 200)"
    by auto
  have k': "predicted_failure_km r' = Some (2 ^ 60 + 256)"
    by (simp only: k0 f64_add_rounds)
  from r a c s f k r' a' s' k' show ?thesis by blast
qed

text \<open>
  C10 (the gap between the two vibration rules). On a sample with a vibration level in
  [60, 80) at 2500 rpm or more, on which neither the coolant rule nor the charging rule
  fires, \<open>detect\<close> returns no anomaly. The charging rule fires on a battery voltage that is
  not zero and at most the float \<open>11.3\<close>.
\<close>

theorem vibration_gap:
  assumes "60 \<le> vibration_level p" and "vibration_level p < 80" and "2500 \<le> engine_rpm p"
    and "\<not> (120 \<le> coolant_temp_c p \<or> (110 \<le> coolant_temp_c p \<and> 2.5 \<le> coolant_pressure_bar p))"
    and "\<not> (battery_voltage p \<noteq> 0 \<and> battery_voltage p \<le> f64_11_3)"
  shows "fst (detect B (Model p) lg) = Inr no_anomaly"
  using assms
    by (cases "battery_voltage p = 0") (simp_all add: detect_Model rule_set_no_rule f64_11_3_def)

theorem vibration_gap_witness:
  "in_range (sample 90 1 3000 70 13 10000)
   \<and> fst (detect sample_builtins (Model (sample 90 1 3000 70 13 10000)) []) = Inr no_anomaly"
  using vibration_gap [of "sample 90 1 3000 70 13 10000" sample_builtins "[]"]
  by (simp add: in_range_sample f64_11_3_def)

section \<open>Properties of the orchestrator\<close>

lemma stage_answer_0: "stage_answer C hist (t # ts) 0 = llm_invoke C hist (role (agent t)) (description t)"
  by (simp add: stage_answer_def)

lemma stage_answer_Suc:
  "stage_answer C hist (t # ts) (Suc j) = stage_answer C (hist @ [call_of t]) ts j"
  by (simp add: stage_answer_def)

lemma stages_succeed_upto_Suc:
  "stages_succeed_upto C hist (t # ts) (Suc k) =
     (\<not> isl (llm_invoke C hist (role (agent t)) (description t))
      \<and> stages_succeed_upto C (hist @ [call_of t]) ts k)"
proof -
  have "[0..<Suc k] = 0 # map Suc [0..<k]"
    by (simp add: upt_conv_Cons map_Suc_upt del: upt_Suc)
  then have "stages_succeed_upto C hist (t # ts) (Suc k) =
      list_all (\<lambda>j. \<not> isl (stage_answer C hist (t # ts) j)) (0 # map Suc [0..<k])"
    by (simp only: stages_succeed_upto_def)
  then show ?thesis
    by (simp add: stages_succeed_upto_def stage_answer_0 stage_answer_Suc list.pred_map o_def
          del: upt_Suc)
qed

lemma run_stages_ok:
  "stages_succeed_upto C (gen_calls w) ts (length ts) \<Longrightarrow>
   \<exists>outs'. length outs' = length ts
      \<and> run_stages C ts outs w = (Inr (outs @ outs'), w\<lparr>gen_calls := gen_calls w @ map call_of ts\<rparr>)"
proof (induction ts arbitrary: outs w)
  case Nil
  then show ?case by simp
next
  case (Cons t ts)
  from Cons.prems obtain out where
    out: "llm_invoke C (gen_calls w) (role (agent t)) (description t) = Inr out"
    and rest: "stages_succeed_upto C (gen_calls w @ [call_of t]) ts (length ts)"
    by (cases "llm_invoke C (gen_calls w) (role (agent t)) (description t)")
       (auto simp add: stages_succeed_upto_Suc)
  let ?w1 = "w\<lparr>gen_calls := gen_calls w @ [(role (agent t), description t)]\<rparr>"
  from rest have "stages_succeed_upto C (gen_calls ?w1) ts (length ts)"
    by (simp add: call_of_def)
  from Cons.IH [OF this, of "outs @ [out]"] obtain outs' where
    "length outs' = length ts"
    "run_stages C ts (outs @ [out]) ?w1 =
       (Inr ((outs @ [out]) @ outs'), ?w1\<lparr>gen_calls := gen_calls ?w1 @ map call_of ts\<rparr>)"
    by blast
  then show ?case
    using out by (intro exI [of _ "out # outs'"]) (simp add: call_of_def)
qed

lemma run_stages_fail:
  "k < length ts \<Longrightarrow> stages_succeed_upto C (gen_calls w) ts k \<Longrightarrow>
   stage_answer C (gen_calls w) ts k = Inl e \<Longrightarrow>
   run_stages C ts outs w = (Inl e, w\<lparr>gen_calls := gen_calls w @ map call_of (take (Suc k) ts)\<rparr>)"
proof (induction ts arbitrary: k outs w)
  case Nil
  then show ?case by simp
next
  case (Cons t ts)
  show ?case
  proof (cases k)
    case 0
    with Cons.prems show ?thesis
      by (simp add: stage_answer_0 call_of_def)
  next
    case (Suc k')
    let ?w1 = "w\<lparr>gen_calls := gen_calls w @ [(role (agent t), description t)]\<rparr>"
    from Cons.prems Suc obtain out where
      out: "llm_invoke C (gen_calls w) (role (agent t)) (description t) = Inr out"
      and rest: "stages_succeed_upto C (gen_calls ?w1) ts k'"
      by (cases "llm_invoke C (gen_calls w) (role (agent t)) (description t)")
         (auto simp add: stages_succeed_upto_Suc call_of_def)
    from Cons.prems Suc have "k' < length ts"
      and "stage_answer C (gen_calls ?w1) ts k' = Inl e"
      by (simp_all add: stage_answer_Suc call_of_def)
    from Cons.IH [OF this(1) rest this(2), of "outs @ [out]"]
    show ?thesis using out Suc by (simp add: call_of_def)
  qed
qed

lemma stages_succeed_upto_save [simp]:
  "stages_succeed_upto (C\<lparr>save_fault := sv\<rparr>) hist ts k = stages_succeed_upto C hist ts k"
  by (simp add: stages_succeed_upto_def stage_answer_def)

lemma length_build_tasks: "length (build_tasks B ctx) = 5"
  by (simp add: build_tasks_def Let_def)

lemma run_pipeline_failure:
  assumes "k < 5"
    and "stages_succeed_upto C (gen_calls w) (build_tasks B (build_context p a)) k"
    and "stage_answer C (gen_calls w) (build_tasks B (build_context p a)) k = Inl e"
  shows "run_pipeline C B p a w =
     (Inl e,
      log_to ERROR ''CrewAI pipeline failed: %s''
        ((log_to INFO ''Running CrewAI pipeline for VIN=%s, component=%s, severity=%s'' w)
           \<lparr>gen_calls := gen_calls w @ map call_of (take (Suc k) (build_tasks B (build_context p a)))\<rparr>))"
proof -
  let ?w1 = "log_to INFO ''Running CrewAI pipeline for VIN=%s, component=%s, severity=%s'' w"
  have g: "gen_calls ?w1 = gen_calls w" by (simp add: log_to_def)
  have "run_stages C (build_tasks B (build_context p a)) [] ?w1 =
      (Inl e, ?w1\<lparr>gen_calls := gen_calls ?w1
          @ map call_of (take (Suc k) (build_tasks B (build_context p a)))\<rparr>)"
    using assms by (intro run_stages_fail) (simp_all add: g length_build_tasks)
  then show ?thesis
    by (simp add: run_pipeline_def kickoff_def Let_def g)
qed

lemma run_pipeline_success:
  assumes "stages_succeed_upto C (gen_calls w) (build_tasks B (build_context p a)) 5"
    and "severity_ok a"
  shows "\<exists>outs. length outs = 5
     \<and> fst (run_pipeline C B p a w) =
         Inr \<lparr>pr_context = build_context p a, crew_output = outs,
              fault_id = generate_id C (ids_issued w)\<rparr>
     \<and> gen_calls (snd (run_pipeline C B p a w)) =
         gen_calls w @ map call_of (build_tasks B (build_context p a))
     \<and> ids_issued (snd (run_pipeline C B p a w)) = Suc (ids_issued w)
     \<and> save_calls (snd (run_pipeline C B p a w)) =
         save_calls w @
           [\<lparr>fr_id = generate_id C (ids_issued w), fr_vin = vin p, detected_at = utcnow w,
             fr_predicted_failure_km = or_float (predicted_failure_km a) 200,
             fr_component = or_str (component a) ''unknown'',
             fr_severity = or_str (severity a) ''medium'',
             raw_payload = build_context p a\<rparr>]"
proof -
  let ?w1 = "log_to INFO ''Running CrewAI pipeline for VIN=%s, component=%s, severity=%s'' w"
  let ?ts = "build_tasks B (build_context p a)"
  have g: "gen_calls ?w1 = gen_calls w" by (simp add: log_to_def)
  have "stages_succeed_upto C (gen_calls ?w1) ?ts (length ?ts)"
    using assms(1) by (simp add: g length_build_tasks)
  from run_stages_ok [OF this, of "[]"] obtain outs where
    len: "length outs = 5"
    and run: "run_stages C ?ts [] ?w1 = (Inr outs, ?w1\<lparr>gen_calls := gen_calls ?w1 @ map call_of ?ts\<rparr>)"
    by (auto simp add: length_build_tasks)
  have sev: "or_str (severity a) ''medium'' \<in> set [''low'', ''medium'', ''high'', ''critical'']"
    using assms(2) by (simp only: severity_ok_def)
  show ?thesis
    using len run sev
    by (intro exI [of _ outs])
       (cases "save_fault C (save_calls w)
                 \<lparr>fr_id = generate_id C (ids_issued w), fr_vin = vin p, detected_at = utcnow w,
                  fr_predicted_failure_km = or_float (predicted_failure_km a) 200,
                  fr_component = or_str (component a) ''unknown'',
                  fr_severity = or_str (severity a) ''medium'',
                  raw_payload = build_context p a\<rparr>",
        simp_all add: run_pipeline_def kickoff_def Let_def g new_FaultRecord_def log_to_def
          del: set_simps)
qed


lemma run_pipeline_save_irrelevant:
  "fst (run_pipeline (C\<lparr>save_fault := sv\<rparr>) B p a w) = fst (run_pipeline (C\<lparr>save_fault := sv'\<rparr>) B p a w)"
proof -
  have rs: "run_stages (C\<lparr>save_fault := s\<rparr>) ts outs v = run_stages C ts outs v" for s ts outs v
    by (induction ts arbitrary: outs v) (simp_all add: Let_def split: sum.splits)
  show ?thesis
    by (simp add: run_pipeline_def kickoff_def rs Let_def split: prod.splits sum.splits)
qed

lemma sample_roles_ok:
  "stages_succeed_upto (sample_collaborators [] sf) hist ts k"
  by (simp add: stages_succeed_upto_def stage_answer_def sample_collaborators_def list_all_iff
        build_tasks_def)

lemma severity_ok_sample: "severity_ok (anomaly_result ''coolant_pump'' ''high'' ''hot'' 11000)"
  by (simp add: severity_ok_def anomaly_result_def or_str_def)


section \<open>Claims about the orchestrator and the entry point\<close>

text \<open>
  C5 (a failure of the text-generation capability). If the capability raises at stage
  \<open>k\<close> of the five, the stages before it having succeeded, then \<open>run_pipeline\<close> raises that
  error to its caller; the capability has been called for the stages up to \<open>k\<close> and for no
  later one; \<open>save_fault\<close> has not been called and no id has been generated, so no
  \<open>FaultRecord\<close> has been constructed.
\<close>

theorem generation_failure_aborts_run:
  assumes "k < 5"
    and "stages_succeed_upto C (gen_calls w) (build_tasks B (build_context p a)) k"
    and "stage_answer C (gen_calls w) (build_tasks B (build_context p a)) k = Inl e"
  shows "fst (run_pipeline C B p a w) = Inl e
     \<and> gen_calls (snd (run_pipeline C B p a w)) =
         gen_calls w @ map call_of (take (Suc k) (build_tasks B (build_context p a)))
     \<and> save_calls (snd (run_pipeline C B p a w)) = save_calls w
     \<and> ids_issued (snd (run_pipeline C B p a w)) = ids_issued w"
  by (simp add: run_pipeline_failure [OF assms] log_to_def)

theorem generation_failure_aborts_run_witness:
  "(2::nat) < 5
   \<and> stages_succeed_upto (sample_collaborators [''Customer Engagement Agent''] False) (gen_calls sample_world)
        (build_tasks sample_builtins (build_context (sample 130 1 1500 10 13 10000)
           (anomaly_result ''coolant_pump'' ''high'' ''hot'' 11000))) 2
   \<and> fst (run_pipeline (sample_collaborators [''Customer Engagement Agent''] False) sample_builtins
        (sample 130 1 1500 10 13 10000) (anomaly_result ''coolant_pump'' ''high'' ''hot'' 11000)
        sample_world) = Inl (GenerationError ''provider down'')
   \<and> map fst (gen_calls (snd (run_pipeline (sample_collaborators [''Customer Engagement Agent''] False)
        sample_builtins (sample 130 1 1500 10 13 10000)
        (anomaly_result ''coolant_pump'' ''high'' ''hot'' 11000) sample_world))) =
       [''Data Monitoring Agent'', ''Diagnosis Agent'', ''Customer Engagement Agent'']
   \<and> save_calls (snd (run_pipeline (sample_collaborators [''Customer Engagement Agent''] False)
        sample_builtins (sample 130 1 1500 10 13 10000)
        (anomaly_result ''coolant_pump'' ''high'' ''hot'' 11000) sample_world)) = []
   \<and> ids_issued (snd (run_pipeline (sample_collaborators [''Customer Engagement Agent''] False)
        sample_builtins (sample 130 1 1500 10 13 10000)
        (anomaly_result ''coolant_pump'' ''high'' ''hot'' 11000) sample_world)) = 0"
proof -
  let ?C = "sample_collaborators [''Customer Engagement Agent''] False"
  let ?ts = "build_tasks sample_builtins (build_context (sample 130 1 1500 10 13 10000)
           (anomaly_result ''coolant_pump'' ''high'' ''hot'' 11000))"
  have r: "role (agent (?ts ! 0)) = ''Data Monitoring Agent''"
      "role (agent (?ts ! Suc 0)) = ''Diagnosis Agent''"
      "role (agent (?ts ! 2)) = ''Customer Engagement Agent''"
    by (simp_all add: build_tasks_def Let_def data_agent_def diagnosis_agent_def customer_agent_def)
  have up: "[0..<2] = [0, 1::nat]" by (simp add: upt_rec)
  have h1: "(2::nat) < 5" by simp
  have h2: "stages_succeed_upto ?C (gen_calls sample_world) ?ts 2"
    by (simp add: stages_succeed_upto_def stage_answer_def up r sample_collaborators_def)
  have h3: "stage_answer ?C (gen_calls sample_world) ?ts 2 = Inl (GenerationError ''provider down'')"
    by (simp add: stage_answer_def r sample_collaborators_def)
  have tk: "map fst (map call_of (take (Suc 2) ?ts)) =
      [''Data Monitoring Agent'', ''Diagnosis Agent'', ''Customer Engagement Agent'']"
    by (simp add: build_tasks_def Let_def call_of_def data_agent_def diagnosis_agent_def
          customer_agent_def)
  show ?thesis
    using generation_failure_aborts_run [OF h1 h2 h3] h2 tk
    by (simp add: sample_world_def)
qed

text \<open>
  C6 (a failure of \<open>save_fault\<close> is not fatal). The value \<open>run_pipeline\<close> returns is the same
  whatever \<open>save_fault\<close> does. When the five stages succeed and the severity passes the
  validation of \<open>FaultRecord\<close>, it is the composite result of the context, the outputs of
  the five stages and the id of the record handed to \<open>save_fault\<close>, whether that call fails
  or succeeds.
\<close>

theorem save_failure_keeps_result:
  "fst (run_pipeline (C\<lparr>save_fault := sv\<rparr>) B p a w) = fst (run_pipeline (C\<lparr>save_fault := sv'\<rparr>) B p a w)
   \<and> (stages_succeed_upto C (gen_calls w) (build_tasks B (build_context p a)) 5 \<and> severity_ok a \<longrightarrow>
        (\<exists>outs. length outs = 5 \<and>
           (\<forall>sv. fst (run_pipeline (C\<lparr>save_fault := sv\<rparr>) B p a w) =
                    Inr \<lparr>pr_context = build_context p a, crew_output = outs,
                         fault_id = generate_id C (ids_issued w)\<rparr>
                \<and> map fr_id (save_calls (snd (run_pipeline (C\<lparr>save_fault := sv\<rparr>) B p a w))) =
                    map fr_id (save_calls w) @ [generate_id C (ids_issued w)])))"
proof (intro conjI impI)
  show "fst (run_pipeline (C\<lparr>save_fault := sv\<rparr>) B p a w) =
        fst (run_pipeline (C\<lparr>save_fault := sv'\<rparr>) B p a w)"
    by (rule run_pipeline_save_irrelevant)
next
  assume h: "stages_succeed_upto C (gen_calls w) (build_tasks B (build_context p a)) 5 \<and> severity_ok a"
  from h run_pipeline_success [of C w B p a] obtain outs where
    len: "length outs = 5"
    and res: "fst (run_pipeline C B p a w) =
         Inr \<lparr>pr_context = build_context p a, crew_output = outs,
              fault_id = generate_id C (ids_issued w)\<rparr>"
    by blast
  have "fst (run_pipeline (C\<lparr>save_fault := s\<rparr>) B p a w) =
          Inr \<lparr>pr_context = build_context p a, crew_output = outs,
               fault_id = generate_id C (ids_issued w)\<rparr>
        \<and> map fr_id (save_calls (snd (run_pipeline (C\<lparr>save_fault := s\<rparr>) B p a w))) =
            map fr_id (save_calls w) @ [generate_id C (ids_issued w)]" for s
  proof -
    have "fst (run_pipeline (C\<lparr>save_fault := s\<rparr>) B p a w) =
          fst (run_pipeline (C\<lparr>save_fault := save_fault C\<rparr>) B p a w)"
      by (rule run_pipeline_save_irrelevant)
    then have one: "fst (run_pipeline (C\<lparr>save_fault := s\<rparr>) B p a w) =
          Inr \<lparr>pr_context = build_context p a, crew_output = outs,
               fault_id = generate_id C (ids_issued w)\<rparr>"
      using res by simp
    from h run_pipeline_success [of "C\<lparr>save_fault := s\<rparr>" w B p a]
    have "map fr_id (save_calls (snd (run_pipeline (C\<lparr>save_fault := s\<rparr>) B p a w))) =
            map fr_id (save_calls w) @ [generate_id C (ids_issued w)]"
      by auto
    with one show ?thesis by simp
  qed
  with len show "\<exists>outs. length outs = 5 \<and>
           (\<forall>sv. fst (run_pipeline (C\<lparr>save_fault := sv\<rparr>) B p a w) =
                    Inr \<lparr>pr_context = build_context p a, crew_output = outs,
                         fault_id = generate_id C (ids_issued w)\<rparr>
                \<and> map fr_id (save_calls (snd (run_pipeline (C\<lparr>save_fault := sv\<rparr>) B p a w))) =
                    map fr_id (save_calls w) @ [generate_id C (ids_issued w)])"
    by blast
qed

theorem save_failure_keeps_result_witness:
  "stages_succeed_upto (sample_collaborators [] False) (gen_calls sample_world)
      (build_tasks sample_builtins (build_context (sample 130 1 1500 10 13 10000)
         (anomaly_result ''coolant_pump'' ''high'' ''hot'' 11000))) 5
   \<and> severity_ok (anomaly_result ''coolant_pump'' ''high'' ''hot'' 11000)
   \<and> (\<forall>f. save_fault (sample_collaborators [] True) [] f = Some (PersistenceError ''database is locked''))
   \<and> (\<forall>f. save_fault (sample_collaborators [] False) [] f = None)
   \<and> fst (run_pipeline (sample_collaborators [] True) sample_builtins (sample 130 1 1500 10 13 10000)
        (anomaly_result ''coolant_pump'' ''high'' ''hot'' 11000) sample_world)
     = fst (run_pipeline (sample_collaborators [] False) sample_builtins (sample 130 1 1500 10 13 10000)
        (anomaly_result ''coolant_pump'' ''high'' ''hot'' 11000) sample_world)
   \<and> (\<exists>outs. length outs = 5 \<and>
        fst (run_pipeline (sample_collaborators [] True) sample_builtins (sample 130 1 1500 10 13 10000)
          (anomaly_result ''coolant_pump'' ''high'' ''hot'' 11000) sample_world)
        = Inr \<lparr>pr_context = build_context (sample 130 1 1500 10 13 10000)
                  (anomaly_result ''coolant_pump'' ''high'' ''hot'' 11000),
               crew_output = outs, fault_id = ''fault-0''\<rparr>)"
proof -
  let ?C = "sample_collaborators [] False"
  let ?a = "anomaly_result ''coolant_pump'' ''high'' ''hot'' 11000"
  let ?p = "sample 130 1 1500 10 13 10000"
  have t: "?C\<lparr>save_fault := (\<lambda>hist f. Some (PersistenceError ''database is locked''))\<rparr>
             = sample_collaborators [] True"
    by (simp add: sample_collaborators_def)
  have f: "?C\<lparr>save_fault := (\<lambda>hist f. None)\<rparr> = ?C"
    by (simp add: sample_collaborators_def)
  have i: "generate_id ?C (ids_issued sample_world) = ''fault-0''"
    by (simp add: sample_collaborators_def sample_world_def str_nat.simps digit_char_def)
  have h: "stages_succeed_upto ?C (gen_calls sample_world)
      (build_tasks sample_builtins (build_context ?p ?a)) 5 \<and> severity_ok ?a"
    by (simp add: sample_roles_ok severity_ok_sample)
  from save_failure_keeps_result [where C = ?C and B = sample_builtins and p = ?p and a = ?a
      and w = sample_world and sv = "\<lambda>hist f. Some (PersistenceError ''database is locked'')"
      and sv' = "\<lambda>hist f. None"] h
  obtain outs where "length outs = 5"
    and "\<forall>sv. fst (run_pipeline (?C\<lparr>save_fault := sv\<rparr>) sample_builtins ?p ?a sample_world) =
            Inr \<lparr>pr_context = build_context ?p ?a, crew_output = outs, fault_id = ''fault-0''\<rparr>"
    and "fst (run_pipeline (sample_collaborators [] True) sample_builtins ?p ?a sample_world)
       = fst (run_pipeline ?C sample_builtins ?p ?a sample_world)"
    unfolding t f i by blast
  then show ?thesis
    using h t by (auto simp add: sample_collaborators_def)
qed

text \<open>
  C7 (no rule fires; the charging rule fires on a battery voltage that is not zero and at
  most the float \<open>11.3\<close>). On a sample on which no rule fires, \<open>detect\<close> returns
  \<open>is_anomaly = False\<close> with every other field absent, and \<open>ingest_telemetry\<close> answers that
  no anomaly was detected without running the pipeline: the text-generation capability
  and \<open>save_fault\<close> are not called and no id is generated.
\<close>

theorem no_rule_fires_no_pipeline:
  assumes "\<not> (120 \<le> coolant_temp_c p \<or> (110 \<le> coolant_temp_c p \<and> 2.5 \<le> coolant_pressure_bar p))"
    and "\<not> (battery_voltage p \<noteq> 0 \<and> battery_voltage p \<le> f64_11_3)"
    and "\<not> (80 \<le> vibration_level p \<and> 2500 \<le> engine_rpm p)"
    and "\<not> (60 \<le> vibration_level p \<and> engine_rpm p < 2500)"
  shows "fst (detect B (Model p) lg) =
           Inr \<lparr>is_anomaly = False, component = None, severity = None, reason = None,
                predicted_failure_km = None\<rparr>
     \<and> fst (ingest_telemetry C B p w) = Inr (NoAnomaly ''No anomaly detected.'')
     \<and> gen_calls (snd (ingest_telemetry C B p w)) = gen_calls w
     \<and> save_calls (snd (ingest_telemetry C B p w)) = save_calls w
     \<and> ids_issued (snd (ingest_telemetry C B p w)) = ids_issued w"
proof -
  have d: "fst (detect B (Model p) l) = Inr no_anomaly" for l
    using assms
    by (cases "battery_voltage p = 0") (simp_all add: detect_Model rule_set_no_rule f64_11_3_def)
  have n: "\<not> is_anomaly no_anomaly" by (simp add: no_anomaly_def)
  show ?thesis
    using d [of lg] d [of "logged (log_to INFO ''Received telemetry for VIN=%s'' w)"] n
    by (simp add: ingest_telemetry_def Let_def case_prod_beta log_to_def no_anomaly_def)
qed

theorem no_rule_fires_no_pipeline_witness:
  "in_range (sample 90 1 1500 10 13.0 10000)
   \<and> fst (detect sample_builtins (Model (sample 90 1 1500 10 13.0 10000)) []) =
           Inr \<lparr>is_anomaly = False, component = None, severity = None, reason = None,
                predicted_failure_km = None\<rparr>
   \<and> fst (ingest_telemetry (sample_collaborators [] False) sample_builtins
            (sample 90 1 1500 10 13.0 10000) sample_world) = Inr (NoAnomaly ''No anomaly detected.'')
   \<and> gen_calls (snd (ingest_telemetry (sample_collaborators [] False) sample_builtins
            (sample 90 1 1500 10 13.0 10000) sample_world)) = []
   \<and> save_calls (snd (ingest_telemetry (sample_collaborators [] False) sample_builtins
            (sample 90 1 1500 10 13.0 10000) sample_world)) = []"
  using no_rule_fires_no_pipeline [of "sample 90 1 1500 10 13.0 10000" sample_builtins "[]"
          "sample_collaborators [] False" sample_world]
  by (simp add: in_range_sample sample_world_def f64_11_3_def)




end
